theory Spec2Isabelle
  imports Complex_Main
begin

section \<open>JavaScript numbers\<close>

text \<open>
  A TypeScript \<open>number\<close> is an IEEE-754 double. Every finite double is a rational, so a
  number is modelled as \<open>NaN\<close>, one of the two infinities, or \<open>Num x\<close> with \<open>x\<close> real; the
  doubles are the values that \<open>fl\<close> below returns. Negative zero is identified with zero:
  the program compares numbers, divides them by a positive literal and prints them, and
  none of these tells the two zeros apart.
\<close>

datatype number = NaN | NegInfinity | Num real | Infinity

text \<open>
  The comparison \<open>Number::lessThan\<close> of ECMAScript, in the order of its steps: undefined
  (here \<open>None\<close>) as soon as one side is \<open>NaN\<close>.
\<close>

fun Number_lessThan :: "number \<Rightarrow> number \<Rightarrow> bool option" where
  "Number_lessThan NaN y = None"
| "Number_lessThan x NaN = None"
| "Number_lessThan Infinity y = Some False"
| "Number_lessThan x Infinity = Some True"
| "Number_lessThan x NegInfinity = Some False"
| "Number_lessThan NegInfinity y = Some True"
| "Number_lessThan (Num a) (Num b) = Some (a < b)"

text \<open>\<open>x < y\<close> and \<open>x >= y\<close> of JavaScript: both are false when the comparison is undefined.\<close>

definition js_lt :: "number \<Rightarrow> number \<Rightarrow> bool" where
  "js_lt x y = (case Number_lessThan x y of None \<Rightarrow> False | Some r \<Rightarrow> r)"

definition js_ge :: "number \<Rightarrow> number \<Rightarrow> bool" where
  "js_ge x y = (case Number_lessThan x y of None \<Rightarrow> False | Some r \<Rightarrow> \<not> r)"

subsection \<open>Rounding to a double\<close>

definition pow :: "real \<Rightarrow> int \<Rightarrow> real" where
  "pow b e = (if 0 \<le> e then b ^ nat e else 1 / b ^ nat (- e))"

text \<open>\<open>ilog b n\<close> is the integer logarithm: the largest \<open>e\<close> with \<open>b ^ e \<le> n\<close>, for \<open>n \<ge> 1\<close>.\<close>

function ilog :: "int \<Rightarrow> int \<Rightarrow> int" where
  "ilog b n = (if b < 2 \<or> n < b then 0 else 1 + ilog b (n div b))"
  by pat_completeness auto
termination
  by (relation "measure (\<lambda>(b, n). nat n)") (auto intro!: int_div_less_self)

declare ilog.simps [simp del]

text \<open>The same for a positive real: the largest \<open>e\<close> with \<open>b ^ e \<le> a\<close>, negative below 1.\<close>

definition floor_log :: "int \<Rightarrow> real \<Rightarrow> int" where
  "floor_log b a =
     (if 1 \<le> a then ilog b \<lfloor>a\<rfloor>
      else - (1 + ilog b (\<lceil>1 / a\<rceil> - 1)))"

definition round_half_even :: "real \<Rightarrow> int" where
  "round_half_even r =
     (if r - of_int \<lfloor>r\<rfloor> < 1 / 2 then \<lfloor>r\<rfloor>
      else if 1 / 2 < r - of_int \<lfloor>r\<rfloor> then \<lfloor>r\<rfloor> + 1
      else if even \<lfloor>r\<rfloor> then \<lfloor>r\<rfloor> else \<lfloor>r\<rfloor> + 1)"

text \<open>
  The spacing of the doubles around a positive \<open>a\<close>: 53 significant bits, and the fixed
  spacing \<open>2 ^ - 1074\<close> of the subnormal range.
\<close>

definition ulp :: "real \<Rightarrow> real" where
  "ulp a = pow 2 (max (floor_log 2 a - 52) (- 1074))"

text \<open>
  \<open>fl q\<close> is the double nearest to \<open>q\<close>, ties to the even significand, and an infinity
  from \<open>2 ^ 1024\<close> on: the rounding that every arithmetic operation and every conversion
  to a number applies to its exact result.
\<close>

definition fl :: "real \<Rightarrow> number" where
  "fl q =
     (if q = 0 then Num 0
      else if 2 ^ 1024 \<le> of_int (round_half_even (\<bar>q\<bar> / ulp \<bar>q\<bar>)) * ulp \<bar>q\<bar>
           then (if q < 0 then NegInfinity else Infinity)
      else Num (sgn q * (of_int (round_half_even (\<bar>q\<bar> / ulp \<bar>q\<bar>)) * ulp \<bar>q\<bar>)))"

text \<open>
  \<open>x / d\<close> for a finite, nonzero divisor \<open>d\<close>; the program divides by the literals
  \<open>1000000\<close> and \<open>1000\<close> only.
\<close>

fun js_div :: "number \<Rightarrow> real \<Rightarrow> number" where
  "js_div NaN d = NaN"
| "js_div Infinity d = (if 0 < d then Infinity else NegInfinity)"
| "js_div NegInfinity d = (if 0 < d then NegInfinity else Infinity)"
| "js_div (Num q) d = fl (q / d)"

subsection \<open>Number.prototype.toString\<close>

definition digitChar :: "int \<Rightarrow> char" where
  "digitChar d = ''0123456789'' ! nat d"

text \<open>The decimal digits of a natural number, \<open>0\<close> as "0".\<close>

function decimal :: "int \<Rightarrow> string" where
  "decimal n =
     (if n < 10 then [digitChar n] else decimal (n div 10) @ [digitChar (n mod 10)])"
  by pat_completeness auto
termination
  by (relation "measure nat") (auto intro!: int_div_less_self)

declare decimal.simps [simp del]

text \<open>
  \<open>Number::toString\<close> asks for integers \<open>n\<close>, \<open>k\<close>, \<open>s\<close> with \<open>k \<ge> 1\<close>,
  \<open>10 ^ (k - 1) \<le> s < 10 ^ k\<close>, \<open>s * 10 ^ (n - k)\<close> rounding to the double \<open>x\<close>, and \<open>k\<close> as
  small as possible. For a given \<open>k\<close> the only candidates are the two \<open>k\<close>-digit numbers
  around \<open>x\<close> and the next power of ten.
\<close>

definition digit_candidates :: "real \<Rightarrow> int \<Rightarrow> (int \<times> int) list" where
  "digit_candidates x k =
     (let e = floor_log 10 x + 1;
          s0 = \<lfloor>x / pow 10 (e - k)\<rfloor>
      in filter (\<lambda>(s, n). 10 ^ nat (k - 1) \<le> s \<and> s < 10 ^ nat k \<and>
                           fl (of_int s * pow 10 (n - k)) = Num x)
           [(s0, e), (s0 + 1, e), (10 ^ nat (k - 1), e + 1)])"

text \<open>Among several candidates the one closest to \<open>x\<close> is taken, the even one on a tie.\<close>

definition closer :: "real \<Rightarrow> int \<Rightarrow> (int \<times> int) \<Rightarrow> (int \<times> int) \<Rightarrow> (int \<times> int)" where
  "closer x k c1 c2 =
     (let d1 = \<bar>of_int (fst c1) * pow 10 (snd c1 - k) - x\<bar>;
          d2 = \<bar>of_int (fst c2) * pow 10 (snd c2 - k) - x\<bar>
      in if d1 < d2 then c1 else if d2 < d1 then c2 else if even (fst c1) then c1 else c2)"

text \<open>
  The search for the smallest \<open>k\<close>, from \<open>k\<close> upwards. Seventeen digits identify every
  double, so the search ends with a candidate before the bound is met.
\<close>

function shortest :: "real \<Rightarrow> int \<Rightarrow> (int \<times> int \<times> int)" where
  "shortest x k =
     (case digit_candidates x k of
        c # cs \<Rightarrow> (let (s, n) = foldl (closer x k) c cs in (s, n, k))
      | [] \<Rightarrow> if 17 \<le> k then (0, 0, k) else shortest x (k + 1))"
  by pat_completeness auto
termination
  by (relation "measure (\<lambda>(x, k). nat (17 - k))") auto

declare shortest.simps [simp del]

text \<open>The digits laid out as \<open>Number::toString\<close> does for a positive double.\<close>

definition toString_pos :: "real \<Rightarrow> string" where
  "toString_pos x =
     (let (s, n, k) = shortest x 1; ds = decimal s
      in if - 5 \<le> n \<and> n \<le> 21 then
           (if k \<le> n then ds @ replicate (nat (n - k)) (CHR ''0'')
            else if 0 < n then take (nat n) ds @ ''.'' @ drop (nat n) ds
            else ''0.'' @ replicate (nat (- n)) (CHR ''0'') @ ds)
         else
           (let c = (if 0 \<le> n - 1 then ''+'' else ''-''); d = decimal \<bar>n - 1\<bar>
            in if k = 1 then ds @ ''e'' @ c @ d
               else take 1 ds @ ''.'' @ drop 1 ds @ ''e'' @ c @ d))"

text \<open>
  \<open>toString\<close> in radix 10. A \<open>Num q\<close> is printed as the double nearest to \<open>q\<close>, which is
  \<open>q\<close> itself whenever \<open>q\<close> is a double.
\<close>

fun toString :: "number \<Rightarrow> string" where
  "toString NaN = ''NaN''"
| "toString Infinity = ''Infinity''"
| "toString NegInfinity = ''-Infinity''"
| "toString (Num q) =
     (case fl q of
        Num x \<Rightarrow>
          (if x = 0 then ''0''
           else if x < 0 then ''-'' @ toString_pos (- x)
           else toString_pos x)
      | Infinity \<Rightarrow> ''Infinity''
      | NegInfinity \<Rightarrow> ''-Infinity''
      | NaN \<Rightarrow> ''NaN'')"

subsection \<open>Number.prototype.toFixed\<close>

text \<open>
  "Let \<open>n\<close> be an integer for which \<open>n / 10 ^ f - x\<close> is as close to zero as possible. If
  there are two such \<open>n\<close>, pick the larger": \<open>nearest\<close> applied to \<open>x * 10 ^ f\<close>.
\<close>

definition nearest :: "real \<Rightarrow> int" where
  "nearest y =
     (if y - of_int \<lfloor>y\<rfloor> < of_int (\<lfloor>y\<rfloor> + 1) - y then \<lfloor>y\<rfloor> else \<lfloor>y\<rfloor> + 1)"

text \<open>
  \<open>x.toFixed(f)\<close> for \<open>0 \<le> f \<le> 100\<close> (the program passes 1; outside that range
  JavaScript raises a RangeError, which is not modelled). From \<open>10 ^ 21\<close> on the result is
  that of \<open>toString\<close>.
\<close>

definition toFixed :: "nat \<Rightarrow> number \<Rightarrow> string" where
  "toFixed f x =
     (case x of
        NaN \<Rightarrow> ''NaN''
      | Infinity \<Rightarrow> ''Infinity''
      | NegInfinity \<Rightarrow> ''-Infinity''
      | Num q \<Rightarrow>
          (let s = (if q < 0 then ''-'' else [])
           in if 10 ^ 21 \<le> \<bar>q\<bar> then s @ toString (Num \<bar>q\<bar>)
              else
                (let m = decimal (nearest (\<bar>q\<bar> * 10 ^ f));
                     m = (if length m \<le> f
                          then replicate (f + 1 - length m) (CHR ''0'') @ m else m)
                 in if f = 0 then s @ m
                    else s @ take (length m - f) m @ ''.'' @ drop (length m - f) m)))"

subsection \<open>parseInt\<close>

text \<open>
  A JavaScript string is a sequence of UTF-16 code units; \<open>string\<close> holds the code units
  below 256, among them the digits, the letters and the signs. The white space among
  them: TAB, LF, VT, FF, CR, SP and NBSP. The white space of JavaScript above 255 (the
  Unicode space separators, the line and paragraph separators and the byte order mark)
  has no counterpart in \<open>string\<close>.
\<close>

definition isWhiteSpace :: "char \<Rightarrow> bool" where
  "isWhiteSpace c \<longleftrightarrow>
     c \<in> set [CHR 0x09, CHR 0x0A, CHR 0x0B, CHR 0x0C, CHR 0x0D, CHR 0x20, CHR 0xA0]"

text \<open>The value of a digit: \<open>0\<close> to \<open>9\<close>, then the letters of either case from 10 on.\<close>

definition digitValue :: "char \<Rightarrow> int option" where
  "digitValue c =
     (let n = of_char c :: int
      in if 48 \<le> n \<and> n \<le> 57 then Some (n - 48)
         else if 97 \<le> n \<and> n \<le> 122 then Some (n - 87)
         else if 65 \<le> n \<and> n \<le> 90 then Some (n - 55)
         else None)"

definition isRadixDigit :: "int \<Rightarrow> char \<Rightarrow> bool" where
  "isRadixDigit R c = (case digitValue c of None \<Rightarrow> False | Some d \<Rightarrow> d < R)"

fun mathInt :: "int \<Rightarrow> int \<Rightarrow> string \<Rightarrow> int" where
  "mathInt R acc [] = acc"
| "mathInt R acc (c # cs) =
     (case digitValue c of None \<Rightarrow> acc | Some d \<Rightarrow> mathInt R (acc * R + d) cs)"

text \<open>
  \<open>parseInt(string)\<close> with no radix: leading white space is dropped, then one sign, then
  a \<open>0x\<close> or \<open>0X\<close> prefix, which selects radix 16; the longest run of digits that follows is
  the integer, and \<open>NaN\<close> is returned when that run is empty. The integer is rounded to a
  double.
\<close>

definition parseInt :: "string \<Rightarrow> number" where
  "parseInt string =
     (let S = dropWhile isWhiteSpace string;
          sign = (if take 1 S = ''-'' then - 1 else 1);
          S1 = (if take 1 S = ''+'' \<or> take 1 S = ''-'' then drop 1 S else S);
          hex = (take 2 S1 = ''0x'' \<or> take 2 S1 = ''0X'');
          R = (if hex then 16 else 10);
          Z = takeWhile (isRadixDigit R) (if hex then drop 2 S1 else S1)
      in if Z = [] then NaN else fl (sign * of_int (mathInt R 0 Z)))"

section \<open>trading.service.ts\<close>

record MarketOpportunity =
  symbol :: string
  price :: number
  volume :: string
  volatility :: number
  maTrend :: number
  score :: number
  recommendation :: string

record MarketSummary =
  totalOpportunities :: number
  strongBuy :: number
  buy :: number
  weakBuy :: number
  timestamp :: string

record MarketDiscoveryResponse =
  resp_success :: bool
  resp_summary :: MarketSummary
  resp_opportunities :: "MarketOpportunity list"
  resp_rawOutput :: string
  resp_timestamp :: string

text \<open>The failure handed to an \<open>error\<close> callback; the component reads its \<open>message\<close> only.\<close>

record HttpErrorResponse =
  message :: string

text \<open>A request as \<open>HttpClient\<close> receives it: the method, the URL and the \<open>params\<close> object.\<close>

datatype http_method = GET | POST

record HttpRequest =
  http_method :: http_method
  url :: string
  params :: "(string \<times> string) list"

definition apiUrl :: string where
  "apiUrl = ''http://localhost:5050/api''"

text \<open>
  \<open>getMarketDiscovery(maxStocks = 50, minPrice = 0, maxPrice = 200)\<close>: an argument that is
  left out (\<open>None\<close>) takes its default.
\<close>

definition getMarketDiscovery ::
  "number option \<Rightarrow> number option \<Rightarrow> number option \<Rightarrow> HttpRequest" where
  "getMarketDiscovery maxStocks_arg minPrice_arg maxPrice_arg =
     \<lparr> http_method = GET,
       url = apiUrl @ ''/market-discovery'',
       params =
         [(''max_stocks'', toString (case maxStocks_arg of None \<Rightarrow> Num 50 | Some v \<Rightarrow> v)),
          (''min_price'', toString (case minPrice_arg of None \<Rightarrow> Num 0 | Some v \<Rightarrow> v)),
          (''max_price'', toString (case maxPrice_arg of None \<Rightarrow> Num 200 | Some v \<Rightarrow> v))] \<rparr>"

section \<open>dashboard.component.ts\<close>

text \<open>The fields of \<open>DashboardComponent\<close>; \<open>null\<close> is \<open>None\<close>.\<close>

record DashboardComponent =
  opportunities :: "MarketOpportunity list"
  summary :: "MarketSummary option"
  loading :: bool
  error :: "string option"
  maxStocks :: number
  minPrice :: number
  maxPrice :: number

text \<open>
  The component together with what it has asked of the \<open>TradingService\<close>: \<open>calls\<close> lists
  the arguments of every \<open>getMarketDiscovery\<close> invocation, oldest first, and \<open>inflight\<close>
  counts the subscriptions whose response has not arrived yet.
\<close>

record world = DashboardComponent +
  calls :: "(number \<times> number \<times> number) list"
  inflight :: nat

text \<open>Each invocation performs one \<open>http.get\<close>; these are the requests sent so far.\<close>

definition requests :: "world \<Rightarrow> HttpRequest list" where
  "requests w = map (\<lambda>(a, b, c). getMarketDiscovery (Some a) (Some b) (Some c)) (calls w)"

text \<open>The field initialisers of the class.\<close>

definition new_DashboardComponent :: world where
  "new_DashboardComponent =
     \<lparr> opportunities = [], summary = None, loading = False, error = None,
       maxStocks = Num 50, minPrice = Num 0, maxPrice = Num 200,
       calls = [], inflight = 0 \<rparr>"

definition refreshData :: "world \<Rightarrow> world" where
  "refreshData w =
     (if js_ge (minPrice w) (maxPrice w)
      then w\<lparr> error := Some ''Minimum price must be less than maximum price'' \<rparr>
      else w\<lparr> loading := True, error := None,
               calls := calls w @ [(maxStocks w, minPrice w, maxPrice w)],
               inflight := Suc (inflight w) \<rparr>)"

text \<open>The two callbacks that \<open>refreshData\<close> subscribes with.\<close>

definition refreshData_next :: "MarketDiscoveryResponse \<Rightarrow> world \<Rightarrow> world" where
  "refreshData_next response w =
     w\<lparr> opportunities := resp_opportunities response,
        summary := Some (resp_summary response),
        loading := False \<rparr>"

definition refreshData_error :: "HttpErrorResponse \<Rightarrow> world \<Rightarrow> world" where
  "refreshData_error err w =
     w\<lparr> error := Some (''Failed to load market data: '' @ message err),
        loading := False \<rparr>"

definition ngOnInit :: "world \<Rightarrow> world" where
  "ngOnInit w = refreshData w"

definition setPriceRange :: "number \<Rightarrow> number \<Rightarrow> world \<Rightarrow> world" where
  "setPriceRange mn mx w = refreshData (w\<lparr> minPrice := mn, maxPrice := mx \<rparr>)"

definition getRecommendationClass :: "string \<Rightarrow> string" where
  "getRecommendationClass r =
     (if r = ''STRONG BUY'' then ''strong-buy''
      else if r = ''BUY'' then ''buy''
      else if r = ''WEAK BUY'' then ''weak-buy''
      else if r = ''HOLD'' then ''hold''
      else ''neutral'')"

definition formatVolume :: "string \<Rightarrow> string" where
  "formatVolume vol =
     (let num = parseInt vol
      in if js_ge num (Num 1000000) then toFixed 1 (js_div num 1000000) @ ''M''
         else if js_ge num (Num 1000) then toFixed 1 (js_div num 1000) @ ''K''
         else vol)"

subsection \<open>Executions\<close>

text \<open>
  What can happen to a component: one of its methods is invoked, or a call in flight
  completes and runs one of the two callbacks. A completion is possible only while a
  call is in flight.
\<close>

datatype event =
    NgOnInit
  | RefreshData
  | SetPriceRange number number
  | Next MarketDiscoveryResponse
  | Error HttpErrorResponse

fun step :: "world \<Rightarrow> event \<Rightarrow> world" where
  "step w NgOnInit = ngOnInit w"
| "step w RefreshData = refreshData w"
| "step w (SetPriceRange mn mx) = setPriceRange mn mx w"
| "step w (Next response) =
     (if inflight w = 0 then w
      else refreshData_next response (w\<lparr> inflight := inflight w - 1 \<rparr>))"
| "step w (Error err) =
     (if inflight w = 0 then w
      else refreshData_error err (w\<lparr> inflight := inflight w - 1 \<rparr>))"

definition run :: "event list \<Rightarrow> world" where
  "run es = foldl step new_DashboardComponent es"

section \<open>The words of the specification\<close>

text \<open>
  "Rounded to 1 decimal": the nearest multiple of one tenth, a half going up, written as
  its integer part, a point and one digit. For a number that is not negative.
\<close>

definition rounded_1_decimal :: "real \<Rightarrow> string" where
  "rounded_1_decimal x =
     decimal (round (x * 10) div 10) @ ''.'' @ decimal (round (x * 10) mod 10)"

text \<open>
  "No leading numeric prefix": after leading white space and one optional sign, the text
  is empty or starts with a character that is not a decimal digit.
\<close>

definition isDecimalDigit :: "char \<Rightarrow> bool" where
  "isDecimalDigit c \<longleftrightarrow> c \<in> set ''0123456789''"

definition no_numeric_prefix :: "string \<Rightarrow> bool" where
  "no_numeric_prefix s =
     (let t = dropWhile isWhiteSpace s;
          u = (if take 1 t = ''+'' \<or> take 1 t = ''-'' then drop 1 t else t)
      in case u of [] \<Rightarrow> True | c # cs \<Rightarrow> \<not> isDecimalDigit c)"

section \<open>Example data\<close>

definition example_opportunity :: MarketOpportunity where
  "example_opportunity =
     \<lparr> symbol = ''ACME'', price = Num 12, volume = ''1500'', volatility = Num 2,
       maTrend = Num 1, score = Num 80, recommendation = ''STRONG BUY'' \<rparr>"

definition example_response :: MarketDiscoveryResponse where
  "example_response =
     \<lparr> resp_success = True,
       resp_summary =
         \<lparr> totalOpportunities = Num 1, strongBuy = Num 1, buy = Num 0, weakBuy = Num 0,
           timestamp = ''2024-01-01T00:00:00'' \<rparr>,
       resp_opportunities = [example_opportunity],
       resp_rawOutput = [],
       resp_timestamp = ''2024-01-01T00:00:00'' \<rparr>"

section \<open>Evaluating the number functions\<close>

text \<open>
  The definitions that the simplifier unfolds to compute \<open>fl\<close>, \<open>toString\<close>, \<open>toFixed\<close> and
  \<open>parseInt\<close> on literals.
\<close>

lemmas number_eval =
  pow_def floor_log_def ilog.simps round_half_even_def ulp_def fl_def
  digitChar_def decimal.simps digit_candidates_def closer_def shortest.simps
  toString_pos_def nearest_def toFixed_def Let_def

lemmas parse_eval = isWhiteSpace_def digitValue_def isRadixDigit_def parseInt_def

lemma toString_50: "toString (Num 50) = ''50''"
  by (simp add: number_eval)

lemma toString_0: "toString (Num 0) = ''0''"
  by (simp add: number_eval)

lemma toString_200: "toString (Num 200) = ''200''"
  by (simp add: number_eval eval_nat_numeral)

lemma toString_10: "toString (Num 10) = ''10''"
  by (simp add: number_eval eval_nat_numeral)

lemma toString_100: "toString (Num 100) = ''100''"
  by (simp add: number_eval eval_nat_numeral)

section \<open>Comparisons\<close>

lemma js_ge_NaN: "\<not> js_ge NaN y" "\<not> js_ge x NaN"
  by (cases x; simp add: js_ge_def)+

lemma js_lt_NaN: "\<not> js_lt NaN y" "\<not> js_lt x NaN"
  by (cases x; simp add: js_lt_def)+

lemma js_ge_Num: "js_ge (Num a) (Num b) \<longleftrightarrow> b \<le> a"
  by (auto simp: js_ge_def)

lemma js_lt_Num: "js_lt (Num a) (Num b) \<longleftrightarrow> a < b"
  by (simp add: js_lt_def)

lemma js_lt_not_ge: "js_lt x y \<Longrightarrow> \<not> js_ge x y"
  by (cases x; cases y; simp add: js_lt_def js_ge_def)

text \<open>The guard of \<open>refreshData\<close> lets through the ordered pairs and every pair with a \<open>NaN\<close>.\<close>

lemma not_js_ge_iff: "\<not> js_ge x y \<longleftrightarrow> js_lt x y \<or> x = NaN \<or> y = NaN"
  by (cases x; cases y; simp add: js_lt_def js_ge_def)

section \<open>The validation in refreshData\<close>


lemma refreshData_calls:
  "\<not> js_ge (minPrice w) (maxPrice w) \<Longrightarrow>
     refreshData w =
       w\<lparr> loading := True, error := None,
          calls := calls w @ [(maxStocks w, minPrice w, maxPrice w)],
          inflight := Suc (inflight w) \<rparr>"
  by (simp add: refreshData_def)





section \<open>The price bounds along an execution\<close>











section \<open>What is sent to the service\<close>

lemma step_calls:
  "(a, b, c) \<in> set (calls (step w e)) \<Longrightarrow> (a, b, c) \<in> set (calls w) \<or> \<not> js_ge b c"
  by (cases e)
     (auto simp: ngOnInit_def setPriceRange_def refreshData_def refreshData_next_def
        refreshData_error_def split: if_splits)

lemma foldl_step_calls:
  "(a, b, c) \<in> set (calls (foldl step w es)) \<Longrightarrow> (a, b, c) \<in> set (calls w) \<or> \<not> js_ge b c"
proof (induction es arbitrary: w)
  case Nil
  then show ?case by simp
next
  case (Cons e es)
  then have "(a, b, c) \<in> set (calls (step w e)) \<or> \<not> js_ge b c" by simp
  then show ?case using step_calls by blast
qed

text \<open>
  No pair that the guard rejects is ever sent: the bounds of every call satisfy
  \<open>minPrice < maxPrice\<close>, unless one of them is \<open>NaN\<close>.
\<close>

lemma calls_pass_guard:
  assumes "(a, b, c) \<in> set (calls (run es))"
  shows "\<not> js_ge b c" and "js_lt b c \<or> b = NaN \<or> c = NaN"
proof -
  show "\<not> js_ge b c"
    using foldl_step_calls [of a b c new_DashboardComponent es] assms
    by (simp add: run_def new_DashboardComponent_def)
  then show "js_lt b c \<or> b = NaN \<or> c = NaN"
    by (simp add: not_js_ge_iff)
qed

text \<open>
  C3. A call should be issued only when the bounds sent satisfy \<open>minPrice < maxPrice\<close>.
  The guard of \<open>refreshData\<close> is \<open>minPrice >= maxPrice\<close>, which is false as soon as a
  bound is \<open>NaN\<close>: \<open>setPriceRange(NaN, 200)\<close> on the initial state calls
  \<open>getMarketDiscovery(50, NaN, 200)\<close> and sends \<open>min_price=NaN\<close>, although \<open>NaN < 200\<close> is
  false.
\<close>

theorem NaN_bound_is_sent:
  "calls (run [SetPriceRange NaN (Num 200)]) = [(Num 50, NaN, Num 200)]
   \<and> \<not> js_lt NaN (Num 200)
   \<and> map params (requests (run [SetPriceRange NaN (Num 200)]))
       = [[(''max_stocks'', ''50''), (''min_price'', ''NaN''), (''max_price'', ''200'')]]"
  by (simp add: getMarketDiscovery_def requests_def run_def setPriceRange_def
        refreshData_def new_DashboardComponent_def js_ge_NaN js_lt_NaN
        toString_50 toString_200 del: toString.simps(4))

section \<open>The request of getMarketDiscovery\<close>

text \<open>
  C9. For all arguments \<open>getMarketDiscovery\<close> builds one GET request for
  \<open>/market-discovery\<close> under the API base, with the parameters \<open>max_stocks\<close>,
  \<open>min_price\<close> and \<open>max_price\<close> set to the arguments as \<open>toString\<close> prints them, and
  checks nothing: it does the same for a range that is not ordered. The initial load, with
  the defaults 50, 0 and 200, makes one call and sends
  \<open>max_stocks=50\<close>, \<open>min_price=0\<close>, \<open>max_price=200\<close>.
\<close>

theorem getMarketDiscovery_request:
  "getMarketDiscovery (Some a) (Some b) (Some c)
     = \<lparr> http_method = GET,
         url = ''http://localhost:5050/api/market-discovery'',
         params = [(''max_stocks'', toString a), (''min_price'', toString b),
                   (''max_price'', toString c)] \<rparr>
   \<and> calls (run [NgOnInit]) = [(Num 50, Num 0, Num 200)]
   \<and> requests (run [NgOnInit])
     = [\<lparr> http_method = GET,
          url = ''http://localhost:5050/api/market-discovery'',
          params = [(''max_stocks'', ''50''), (''min_price'', ''0''),
                    (''max_price'', ''200'')] \<rparr>]
   \<and> params (getMarketDiscovery (Some (Num 50)) (Some (Num 200)) (Some (Num 0)))
     = [(''max_stocks'', ''50''), (''min_price'', ''200''), (''max_price'', ''0'')]"
  by (simp add: getMarketDiscovery_def apiUrl_def requests_def run_def ngOnInit_def
        refreshData_def new_DashboardComponent_def js_ge_Num
        toString_50 toString_0 toString_200 del: toString.simps(4))

section \<open>The response to a call in flight\<close>

lemma foldl_step_snoc: "foldl step w (es @ [e]) = step (foldl step w es) e"
  by simp

text \<open>The \<open>error\<close> callback, whenever a call is in flight.\<close>

lemma step_Error:
  assumes "0 < inflight w"
  shows "error (step w (Error err)) = Some (''Failed to load market data: '' @ message err)"
    and "loading (step w (Error err)) = False"
    and "opportunities (step w (Error err)) = opportunities w"
    and "summary (step w (Error err)) = summary w"
  using assms by (simp_all add: refreshData_error_def)


text \<open>Only a successful response changes \<open>opportunities\<close> and \<open>summary\<close>.\<close>

lemma step_keeps_data:
  assumes "\<forall>r. e \<noteq> Next r"
  shows "opportunities (step w e) = opportunities w" and "summary (step w e) = summary w"
  using assms
  by (cases e; simp add: ngOnInit_def setPriceRange_def refreshData_def refreshData_error_def)+

lemma foldl_step_keeps_data:
  assumes "\<forall>r. Next r \<notin> set es"
  shows "opportunities (foldl step w es) = opportunities w
       \<and> summary (foldl step w es) = summary w"
  using assms
proof (induction es arbitrary: w)
  case Nil
  then show ?case by simp
next
  case (Cons e es)
  then have "\<forall>r. e \<noteq> Next r" and "\<forall>r. Next r \<notin> set es" by auto
  then show ?case
    using Cons.IH [of "step w e"] step_keeps_data [of e w] by simp
qed



lemma refreshData_valid:
  assumes "js_lt (minPrice w) (maxPrice w)"
  shows "calls (refreshData w) = calls w @ [(maxStocks w, minPrice w, maxPrice w)]"
    and "inflight (refreshData w) = Suc (inflight w)"
    and "error (refreshData w) = None"
    and "loading (refreshData w) = True"
    and "opportunities (refreshData w) = opportunities w"
    and "summary (refreshData w) = summary w"
  using js_lt_not_ge [OF assms] by (simp_all add: refreshData_calls)

text \<open>
  C4, as the code has it. Whenever a call is in flight and fails with \<open>err\<close>, the
  \<open>error\<close> callback sets \<open>error\<close> to "Failed to load market data: " followed by
  \<open>err.message\<close> (so it is not empty and contains the cause), sets \<open>loading = false\<close> and
  leaves \<open>opportunities\<close> and \<open>summary\<close> as they were when it ran. After a refresh with
  \<open>minPrice < maxPrice\<close> they are as they were before that refresh provided that no
  successful response is delivered between the refresh and the failure, in particular
  when the failure is the next event.
\<close>

theorem refresh_then_failure:
  "(0 < inflight w \<longrightarrow>
        error (step w (Error err)) = Some (''Failed to load market data: '' @ message err)
      \<and> ''Failed to load market data: '' @ message err \<noteq> []
      \<and> loading (step w (Error err)) = False
      \<and> opportunities (step w (Error err)) = opportunities w
      \<and> summary (step w (Error err)) = summary w)
   \<and> (js_lt (minPrice w) (maxPrice w) \<and> (\<forall>r. Next r \<notin> set es)
        \<and> 0 < inflight (foldl step (refreshData w) es) \<longrightarrow>
        calls (refreshData w) = calls w @ [(maxStocks w, minPrice w, maxPrice w)]
      \<and> error (foldl step (refreshData w) (es @ [Error err]))
          = Some (''Failed to load market data: '' @ message err)
      \<and> loading (foldl step (refreshData w) (es @ [Error err])) = False
      \<and> opportunities (foldl step (refreshData w) (es @ [Error err])) = opportunities w
      \<and> summary (foldl step (refreshData w) (es @ [Error err])) = summary w)
   \<and> (js_lt (minPrice w) (maxPrice w) \<longrightarrow>
        calls (refreshData w) = calls w @ [(maxStocks w, minPrice w, maxPrice w)]
      \<and> error (step (refreshData w) (Error err))
          = Some (''Failed to load market data: '' @ message err)
      \<and> loading (step (refreshData w) (Error err)) = False
      \<and> opportunities (step (refreshData w) (Error err)) = opportunities w
      \<and> summary (step (refreshData w) (Error err)) = summary w)"
proof (intro conjI impI)
  assume "js_lt (minPrice w) (maxPrice w) \<and> (\<forall>r. Next r \<notin> set es)
        \<and> 0 < inflight (foldl step (refreshData w) es)"
  then have valid: "js_lt (minPrice w) (maxPrice w)" and quiet: "\<forall>r. Next r \<notin> set es"
    and flying: "0 < inflight (foldl step (refreshData w) es)"
    by blast+
  have data: "opportunities (foldl step (refreshData w) es) = opportunities w"
    "summary (foldl step (refreshData w) es) = summary w"
    using foldl_step_keeps_data [OF quiet, of "refreshData w"] refreshData_valid [OF valid]
    by simp_all
  show "calls (refreshData w) = calls w @ [(maxStocks w, minPrice w, maxPrice w)]"
    using valid by (rule refreshData_valid)
  show "error (foldl step (refreshData w) (es @ [Error err]))
          = Some (''Failed to load market data: '' @ message err)"
    unfolding foldl_step_snoc using flying by (rule step_Error)
  show "loading (foldl step (refreshData w) (es @ [Error err])) = False"
    unfolding foldl_step_snoc using flying by (rule step_Error)
  show "opportunities (foldl step (refreshData w) (es @ [Error err])) = opportunities w"
    unfolding foldl_step_snoc using step_Error(3) [OF flying] data by simp
  show "summary (foldl step (refreshData w) (es @ [Error err])) = summary w"
    unfolding foldl_step_snoc using step_Error(4) [OF flying] data by simp
qed (simp_all add: refreshData_error_def refreshData_valid)

text \<open>
  The initial load failing; and the component after a first successful load, refreshed
  twice, with one of the two calls failing.
\<close>

theorem refresh_then_failure_witness:
  "0 < inflight (run [NgOnInit])
   \<and> error (step (run [NgOnInit]) (Error \<lparr> message = ''timeout'' \<rparr>))
       = Some ''Failed to load market data: timeout''
   \<and> js_lt (minPrice (run [NgOnInit, Next example_response]))
           (maxPrice (run [NgOnInit, Next example_response]))
   \<and> 0 < inflight (foldl step (refreshData (run [NgOnInit, Next example_response]))
                     [RefreshData])
   \<and> error (foldl step (refreshData (run [NgOnInit, Next example_response]))
                 ([RefreshData] @ [Error \<lparr> message = ''timeout'' \<rparr>]))
       = Some ''Failed to load market data: timeout''
   \<and> loading (foldl step (refreshData (run [NgOnInit, Next example_response]))
                 ([RefreshData] @ [Error \<lparr> message = ''timeout'' \<rparr>])) = False
   \<and> opportunities (foldl step (refreshData (run [NgOnInit, Next example_response]))
                 ([RefreshData] @ [Error \<lparr> message = ''timeout'' \<rparr>]))
       = [example_opportunity]
   \<and> summary (foldl step (refreshData (run [NgOnInit, Next example_response]))
                 ([RefreshData] @ [Error \<lparr> message = ''timeout'' \<rparr>]))
       = Some (resp_summary example_response)
   \<and> opportunities (step (refreshData (run [NgOnInit, Next example_response]))
                         (Error \<lparr> message = ''timeout'' \<rparr>)) = [example_opportunity]
   \<and> summary (step (refreshData (run [NgOnInit, Next example_response]))
                   (Error \<lparr> message = ''timeout'' \<rparr>)) = Some (resp_summary example_response)"
  using refresh_then_failure
          [of "run [NgOnInit]" "\<lparr> message = ''timeout'' \<rparr>" "[]"]
        refresh_then_failure
          [of "run [NgOnInit, Next example_response]" "\<lparr> message = ''timeout'' \<rparr>"
              "[RefreshData]"]
  by (simp add: run_def ngOnInit_def refreshData_def refreshData_next_def
        refreshData_error_def new_DashboardComponent_def js_ge_Num js_lt_Num
        example_response_def)

text \<open>
  C4 as stated: after the failure \<open>opportunities\<close> and \<open>summary\<close> are as before the call.
  A refresh while the initial load is still in flight, the load then succeeding and the
  refresh's call failing: the refresh started with no opportunities and no summary, and
  after its failure the component holds those of the load.
\<close>

theorem refresh_then_failure_overlap_counterexample:
  "js_lt (minPrice (run [NgOnInit])) (maxPrice (run [NgOnInit]))
   \<and> opportunities (run [NgOnInit]) = []
   \<and> summary (run [NgOnInit]) = None
   \<and> calls (run [NgOnInit, RefreshData]) = [(Num 50, Num 0, Num 200), (Num 50, Num 0, Num 200)]
   \<and> error (run [NgOnInit, RefreshData, Next example_response,
                 Error \<lparr> message = ''timeout'' \<rparr>])
       = Some ''Failed to load market data: timeout''
   \<and> opportunities (run [NgOnInit, RefreshData, Next example_response,
                         Error \<lparr> message = ''timeout'' \<rparr>]) = [example_opportunity]
   \<and> opportunities (run [NgOnInit, RefreshData, Next example_response,
                         Error \<lparr> message = ''timeout'' \<rparr>]) \<noteq> opportunities (run [NgOnInit])
   \<and> summary (run [NgOnInit, RefreshData, Next example_response,
                   Error \<lparr> message = ''timeout'' \<rparr>]) \<noteq> summary (run [NgOnInit])"
  by (simp add: run_def ngOnInit_def refreshData_def refreshData_next_def
        refreshData_error_def new_DashboardComponent_def js_ge_Num js_lt_Num
        example_response_def)




section \<open>setPriceRange\<close>

text \<open>
  C8. \<open>setPriceRange(10, 100)\<close> sets \<open>minPrice = 10\<close> and \<open>maxPrice = 100\<close> and issues
  exactly one call, with those bounds. In general \<open>setPriceRange(min, max)\<close> stores both
  bounds and then runs \<open>refreshData\<close>, whose validation decides whether a call is made.
\<close>

theorem setPriceRange_sets_then_refreshes:
  "minPrice (setPriceRange (Num 10) (Num 100) w) = Num 10
   \<and> maxPrice (setPriceRange (Num 10) (Num 100) w) = Num 100
   \<and> calls (setPriceRange (Num 10) (Num 100) w) = calls w @ [(maxStocks w, Num 10, Num 100)]
   \<and> inflight (setPriceRange (Num 10) (Num 100) w) = Suc (inflight w)
   \<and> map params (requests (setPriceRange (Num 10) (Num 100) new_DashboardComponent))
       = [[(''max_stocks'', ''50''), (''min_price'', ''10''), (''max_price'', ''100'')]]
   \<and> setPriceRange mn mx w = refreshData (w\<lparr> minPrice := mn, maxPrice := mx \<rparr>)
   \<and> minPrice (setPriceRange mn mx w) = mn
   \<and> maxPrice (setPriceRange mn mx w) = mx
   \<and> calls (setPriceRange mn mx w)
       = (if js_ge mn mx then calls w else calls w @ [(maxStocks w, mn, mx)])
   \<and> error (setPriceRange mn mx w)
       = (if js_ge mn mx then Some ''Minimum price must be less than maximum price''
          else None)"
  by (simp add: setPriceRange_def refreshData_def js_ge_Num requests_def
        getMarketDiscovery_def new_DashboardComponent_def
        toString_50 toString_10 toString_100 del: toString.simps(4))

section \<open>getRecommendationClass\<close>

text \<open>
  C6. \<open>getRecommendationClass\<close> returns "strong-buy" for "STRONG BUY", "buy" for "BUY",
  "weak-buy" for "WEAK BUY", "hold" for "HOLD", and "neutral" for every other string,
  among them "SELL" and the lowercase "buy".
\<close>

theorem getRecommendationClass_exact_match:
  "getRecommendationClass ''STRONG BUY'' = ''strong-buy''
   \<and> getRecommendationClass ''BUY'' = ''buy''
   \<and> getRecommendationClass ''WEAK BUY'' = ''weak-buy''
   \<and> getRecommendationClass ''HOLD'' = ''hold''
   \<and> (r \<notin> {''STRONG BUY'', ''BUY'', ''WEAK BUY'', ''HOLD''}
        \<longrightarrow> getRecommendationClass r = ''neutral'')
   \<and> getRecommendationClass ''SELL'' = ''neutral''
   \<and> getRecommendationClass ''buy'' = ''neutral''"
  by (simp add: getRecommendationClass_def)

text \<open>The label "Buy", in mixed case.\<close>

theorem getRecommendationClass_exact_match_witness:
  "''Buy'' \<notin> {''STRONG BUY'', ''BUY'', ''WEAK BUY'', ''HOLD''}
   \<and> getRecommendationClass ''Buy'' = ''neutral''"
  using getRecommendationClass_exact_match [of "''Buy''"] by simp

section \<open>Decimal digits\<close>

lemma decimal_digit: "n < 10 \<Longrightarrow> decimal n = [digitChar n]"
  by (simp add: decimal.simps)

lemma decimal_more: "10 \<le> n \<Longrightarrow> decimal n = decimal (n div 10) @ [digitChar (n mod 10)]"
  by (subst decimal.simps) simp

lemma decimal_nonempty: "decimal n \<noteq> []"
  by (subst decimal.simps) simp

lemma digitChar_0: "digitChar 0 = CHR ''0''"
  by (simp add: digitChar_def)

lemma nearest_eq_round: "nearest y = round y"
proof -
  have "round y = (if y - of_int \<lfloor>y\<rfloor> < 1 / 2 then \<lfloor>y\<rfloor> else \<lfloor>y\<rfloor> + 1)"
    unfolding round_def by (auto simp: floor_eq_iff) linarith+
  then show ?thesis
    by (auto simp: nearest_def)
qed

lemma toFixed_1_rounded:
  assumes "0 \<le> x" and "x < 10 ^ 21"
  shows "toFixed 1 (Num x) = rounded_1_decimal x"
proof -
  define n where "n = round (x * 10)"
  have n0: "0 \<le> n"
    using assms(1) by (simp add: n_def round_def)
  show ?thesis
  proof (cases "n < 10")
    case True
    with n0 have "n div 10 = 0" "n mod 10 = n" by simp_all
    with True assms show ?thesis
      by (simp add: toFixed_def rounded_1_decimal_def nearest_eq_round decimal_digit
          digitChar_0 flip: n_def)
  next
    case False
    then have "decimal n = decimal (n div 10) @ [digitChar (n mod 10)]"
      by (simp add: decimal_more)
    moreover have "decimal (n mod 10) = [digitChar (n mod 10)]"
      by (simp add: decimal_digit)
    ultimately show ?thesis using assms
      by (simp add: toFixed_def rounded_1_decimal_def nearest_eq_round decimal_nonempty
          Let_def flip: n_def)
  qed
qed


section \<open>Rounding to a double: bounds\<close>

lemma ilog_nonneg: "0 \<le> ilog b n"
  by (induction b n rule: ilog.induct) (subst ilog.simps, simp)

lemma ilog_power_le: "2 \<le> b \<Longrightarrow> 1 \<le> n \<Longrightarrow> b ^ nat (ilog b n) \<le> n"
proof (induction b n rule: ilog.induct)
  case (1 b n)
  show ?case
  proof (cases "n < b")
    case True
    with "1.prems" show ?thesis by (subst ilog.simps) simp
  next
    case False
    with "1.prems" have "0 < n div b"
      by (simp add: pos_imp_zdiv_pos_iff)
    then have "1 \<le> n div b" by simp
    with "1.IH" "1.prems" False have IH: "b ^ nat (ilog b (n div b)) \<le> n div b"
      by simp
    have "nat (1 + ilog b (n div b)) = Suc (nat (ilog b (n div b)))"
      using ilog_nonneg [of b "n div b"] by simp
    then have "b ^ nat (ilog b n) = b * b ^ nat (ilog b (n div b))"
      using False "1.prems" by (subst ilog.simps) simp
    also have "\<dots> \<le> b * (n div b)"
      using IH "1.prems" by (simp add: mult_left_mono)
    also have "\<dots> \<le> n"
    proof -
      have "b * (n div b) + n mod b = n" by simp
      moreover have "0 \<le> n mod b" using "1.prems" by simp
      ultimately show ?thesis by linarith
    qed
    finally show ?thesis .
  qed
qed

lemma pow_pos: "0 < pow 2 e"
  by (simp add: pow_def)

lemma pow_shift: "0 \<le> e \<Longrightarrow> pow 2 (e - 52) * 2 ^ 52 = 2 ^ nat e"
proof (cases "52 \<le> e")
  case True
  then have "nat e = nat (e - 52) + 52" by simp
  with True show ?thesis by (simp add: pow_def power_add)
next
  case False
  assume "0 \<le> e"
  with False have "(52::nat) = nat e + nat (52 - e)" by simp
  then have "(2::real) ^ 52 = 2 ^ nat e * 2 ^ nat (52 - e)"
    by (metis power_add)
  with False show ?thesis by (simp add: pow_def field_simps)
qed

lemma ulp_pos: "0 < ulp a"
  by (simp add: ulp_def pow_pos)

lemma ulp_le: 
  assumes "1 \<le> a"
  shows "ulp a * 2 ^ 52 \<le> a"
proof -
  define e where "e = ilog 2 \<lfloor>a\<rfloor>"
  have e0: "0 \<le> e" by (simp add: e_def ilog_nonneg)
  have "1 \<le> \<lfloor>a\<rfloor>" using assms by simp
  then have "(2::int) ^ nat e \<le> \<lfloor>a\<rfloor>"
    unfolding e_def by (intro ilog_power_le) simp_all
  then have "(2::real) ^ nat e \<le> of_int \<lfloor>a\<rfloor>"
    by (metis of_int_le_iff of_int_numeral of_int_power)
  also have "\<dots> \<le> a" by simp
  finally have le: "(2::real) ^ nat e \<le> a" .
  have "ulp a = pow 2 (e - 52)"
    using assms e0 by (simp add: ulp_def floor_log_def e_def max_def)
  with pow_shift [OF e0] le show ?thesis by simp
qed

lemma round_half_even_close: "\<bar>of_int (round_half_even r) - r\<bar> \<le> 1 / 2"
  unfolding round_half_even_def by (auto simp: abs_le_iff)

lemma round_half_even_nonneg: "0 \<le> r \<Longrightarrow> 0 \<le> round_half_even r"
  unfolding round_half_even_def by auto

lemma fl_magnitude_nonneg: "0 \<le> of_int (round_half_even (\<bar>z\<bar> / ulp \<bar>z\<bar>)) * ulp \<bar>z\<bar>"
  using ulp_pos [of "\<bar>z\<bar>"] by (simp add: round_half_even_nonneg)

lemma fl_Num_bound: 
  assumes "fl z = Num v"
  shows "\<bar>v\<bar> < 2 ^ 1024"
proof (cases "z = 0")
  case True
  with assms show ?thesis by (simp add: fl_def)
next
  case False
  define W where "W = of_int (round_half_even (\<bar>z\<bar> / ulp \<bar>z\<bar>)) * ulp \<bar>z\<bar>"
  have W0: "0 \<le> W" unfolding W_def by (rule fl_magnitude_nonneg)
  from assms False have "W < 2 ^ 1024" and "v = sgn z * W"
    by (auto simp: fl_def W_def split: if_splits)
  with W0 False show ?thesis
    by (simp add: abs_mult)
qed

lemma fl_close:
  assumes "1 \<le> q" and "q < 2 ^ 1023"
  shows "\<exists>x. fl q = Num x \<and> \<bar>x - q\<bar> \<le> q / 2 ^ 53 \<and> 0 \<le> x"
proof -
  define u where "u = ulp q"
  define W where "W = of_int (round_half_even (q / u)) * u"
  have u0: "0 < u" by (simp add: u_def ulp_pos)
  have u_le: "u * 2 ^ 52 \<le> q" unfolding u_def using assms(1) by (rule ulp_le)
  have "W - q = (of_int (round_half_even (q / u)) - q / u) * u"
    using u0 by (simp add: W_def field_simps)
  then have "\<bar>W - q\<bar> = \<bar>of_int (round_half_even (q / u)) - q / u\<bar> * u"
    using u0 by (simp add: abs_mult)
  also have "\<dots> \<le> 1 / 2 * u"
    using u0 round_half_even_close [of "q / u"] by (intro mult_right_mono) simp_all
  also have "\<dots> \<le> q / 2 ^ 53"
    using u_le by (simp add: field_simps)
  finally have close: "\<bar>W - q\<bar> \<le> q / 2 ^ 53" .
  have W0: "0 \<le> W"
    using u0 assms(1) by (simp add: W_def round_half_even_nonneg)
  have "W \<le> q + q / 2 ^ 53" using close by linarith
  also have "\<dots> < 2 ^ 1024" using assms(2) by simp
  finally have "W < 2 ^ 1024" .
  then have "fl q = Num W"
    using assms(1) by (simp add: fl_def W_def u_def)
  with close W0 show ?thesis by blast
qed


section \<open>formatVolume\<close>

lemma parseInt_Num_bound: "parseInt vol = Num v \<Longrightarrow> \<bar>v\<bar> < 2 ^ 1024"
  by (auto simp: parseInt_def Let_def split: if_splits dest: fl_Num_bound)

lemma toFixed_1_large: "10 ^ 21 \<le> x \<Longrightarrow> toFixed 1 (Num x) = toString (Num x)"
  by (simp add: toFixed_def del: toString.simps)

lemma formatVolume_millions:
  assumes "parseInt vol = Num v" and "1000000 \<le> v"
  shows "\<exists>x. js_div (Num v) 1000000 = Num x
           \<and> \<bar>x - v / 1000000\<bar> \<le> v / 1000000 / 2 ^ 53
           \<and> formatVolume vol
               = (if x < 10 ^ 21 then rounded_1_decimal x else toString (Num x)) @ ''M''"
proof -
  have "v < 2 ^ 1024" using parseInt_Num_bound [OF assms(1)] by simp
  then have "v / 1000000 < 2 ^ 1023" by simp
  moreover have "1 \<le> v / 1000000" using assms(2) by simp
  ultimately obtain x where x: "fl (v / 1000000) = Num x"
      "\<bar>x - v / 1000000\<bar> \<le> v / 1000000 / 2 ^ 53" "0 \<le> x"
    using fl_close [of "v / 1000000"] by blast
  have "formatVolume vol = toFixed 1 (Num x) @ ''M''"
    using assms x(1) by (simp add: formatVolume_def js_ge_Num)
  moreover have "toFixed 1 (Num x) = (if x < 10 ^ 21 then rounded_1_decimal x else toString (Num x))"
    using x(3) toFixed_1_rounded [of x] toFixed_1_large [of x]
    by (simp del: toString.simps)
  ultimately show ?thesis using x(1,2) by simp
qed

lemma formatVolume_thousands:
  assumes "parseInt vol = Num v" and "1000 \<le> v" and "v < 1000000"
  shows "\<exists>x. js_div (Num v) 1000 = Num x
           \<and> \<bar>x - v / 1000\<bar> \<le> v / 1000 / 2 ^ 53
           \<and> formatVolume vol = rounded_1_decimal x @ ''K''"
proof -
  have "v / 1000 < 2 ^ 1023" using assms(3) by simp
  moreover have "1 \<le> v / 1000" using assms(2) by simp
  ultimately obtain x where x: "fl (v / 1000) = Num x"
      "\<bar>x - v / 1000\<bar> \<le> v / 1000 / 2 ^ 53" "0 \<le> x"
    using fl_close [of "v / 1000"] by blast
  have "x \<le> v / 1000 + v / 1000 / 2 ^ 53" using x(2) by linarith
  also have "\<dots> < 10 ^ 21" using assms(3) by simp
  finally have "x < 10 ^ 21" .
  then have "toFixed 1 (Num x) = rounded_1_decimal x"
    using x(3) by (rule toFixed_1_rounded [rotated])
  moreover have "formatVolume vol = toFixed 1 (Num x) @ ''K''"
    using assms x(1) by (simp add: formatVolume_def js_ge_Num)
  ultimately show ?thesis using x(1,2) by simp
qed

lemma formatVolume_small: "parseInt vol = Num v \<Longrightarrow> v < 1000 \<Longrightarrow> formatVolume vol = vol"
  by (simp add: formatVolume_def js_ge_Num)

lemma formatVolume_examples:
  "formatVolume ''500'' = ''500''" "formatVolume ''1500'' = ''1.5K''"
  "formatVolume ''2500000'' = ''2.5M''" "formatVolume ''999999'' = ''1000.0K''"
  by (simp_all add: formatVolume_def js_ge_def parse_eval number_eval)

text \<open>
  The quotient that is rounded is the double, not the exact fraction: 1150 / 1000 is the
  double just below 1.15 and is printed as 1.1, while 1250 / 1000 is exactly 1.25 and is
  printed as 1.3.
\<close>

lemma formatVolume_halves:
  "formatVolume ''1150'' = ''1.1K''" "formatVolume ''1250'' = ''1.3K''"
  by (simp_all add: formatVolume_def js_ge_def parse_eval number_eval)

text \<open>
  C7, as the code has it. \<open>formatVolume\<close> parses its input with \<open>parseInt\<close>. A value of
  at least 1,000,000 is divided by 1,000,000 and the quotient \<open>x\<close> (a double, within
  \<open>2 ^ - 53\<close> of the exact quotient, relatively) is rendered rounded to 1 decimal and
  followed by "M" as long as \<open>x < 10 ^ 21\<close>; from \<open>10 ^ 21\<close> on \<open>toFixed\<close> prints \<open>x\<close> as
  \<open>toString\<close> does, in exponent notation, and an infinite value gives "InfinityM". A value
  of at least 1,000 and below 1,000,000 is divided by 1,000 and rendered rounded to 1
  decimal, followed by "K". Every other input is returned unchanged. In particular
  "500" gives "500", "1500" gives "1.5K", "2500000" gives "2.5M" and "999999" gives
  "1000.0K".
\<close>

theorem formatVolume_rendering:
  "(parseInt vol = Num v \<longrightarrow>
      (1000000 \<le> v \<longrightarrow>
         (\<exists>x. js_div (Num v) 1000000 = Num x
             \<and> \<bar>x - v / 1000000\<bar> \<le> v / 1000000 / 2 ^ 53
             \<and> formatVolume vol
                 = (if x < 10 ^ 21 then rounded_1_decimal x else toString (Num x)) @ ''M''))
    \<and> (1000 \<le> v \<and> v < 1000000 \<longrightarrow>
         (\<exists>x. js_div (Num v) 1000 = Num x
             \<and> \<bar>x - v / 1000\<bar> \<le> v / 1000 / 2 ^ 53
             \<and> formatVolume vol = rounded_1_decimal x @ ''K''))
    \<and> (v < 1000 \<longrightarrow> formatVolume vol = vol))
   \<and> (parseInt vol = Infinity \<longrightarrow> formatVolume vol = ''InfinityM'')
   \<and> (parseInt vol = NegInfinity \<longrightarrow> formatVolume vol = vol)
   \<and> (parseInt vol = NaN \<longrightarrow> formatVolume vol = vol)
   \<and> formatVolume ''500'' = ''500''
   \<and> formatVolume ''1500'' = ''1.5K''
   \<and> formatVolume ''2500000'' = ''2.5M''
   \<and> formatVolume ''999999'' = ''1000.0K''"
proof -
  have "parseInt vol = Infinity \<longrightarrow> formatVolume vol = ''InfinityM''"
    by (simp add: formatVolume_def js_ge_def toFixed_def)
  moreover have "parseInt vol = NegInfinity \<longrightarrow> formatVolume vol = vol"
    by (simp add: formatVolume_def js_ge_def)
  moreover have "parseInt vol = NaN \<longrightarrow> formatVolume vol = vol"
    by (simp add: formatVolume_def js_ge_def)
  ultimately show ?thesis
    using formatVolume_millions [of vol v] formatVolume_thousands [of vol v]
      formatVolume_small [of vol v] formatVolume_examples
    by blast
qed

text \<open>One input for each finite branch, and one that does not parse.\<close>

lemma rounded_5_2: "rounded_1_decimal (5 / 2) = ''2.5''"
  by (simp add: rounded_1_decimal_def round_def decimal.simps digitChar_def)

lemma rounded_3_2: "rounded_1_decimal (3 / 2) = ''1.5''"
  by (simp add: rounded_1_decimal_def round_def decimal.simps digitChar_def)

theorem formatVolume_rendering_witness:
  "parseInt ''2500000'' = Num 2500000 \<and> js_div (Num 2500000) 1000000 = Num (5 / 2)
   \<and> formatVolume ''2500000'' = rounded_1_decimal (5 / 2) @ ''M''
   \<and> parseInt ''1500'' = Num 1500 \<and> js_div (Num 1500) 1000 = Num (3 / 2)
   \<and> formatVolume ''1500'' = rounded_1_decimal (3 / 2) @ ''K''
   \<and> parseInt ''999'' = Num 999 \<and> formatVolume ''999'' = ''999''
   \<and> parseInt ''N/A'' = NaN \<and> formatVolume ''N/A'' = ''N/A''"
  using formatVolume_rendering [of "''2500000''" 2500000]
    formatVolume_rendering [of "''1500''" 1500]
    formatVolume_rendering [of "''999''" 999]
    formatVolume_rendering [of "''N/A''" 0]
  by (simp add: rounded_5_2 rounded_3_2 formatVolume_def js_ge_def parse_eval number_eval)

text \<open>
  C7 as stated renders every value of at least 1,000,000 as the quotient rounded to 1
  decimal. The text of \<open>10 ^ 27\<close> parses to a double above 1,000,000 whose quotient by
  1,000,000 is \<open>10 ^ 21\<close>; rounded to 1 decimal that is "1000000000000000000000.0", and
  \<open>formatVolume\<close> returns "1e+21M".
\<close>

theorem formatVolume_exponent_counterexample:
  "parseInt ''1000000000000000000000000000'' = Num 1000000000000000013287555072
   \<and> js_ge (parseInt ''1000000000000000000000000000'') (Num 1000000)
   \<and> js_div (parseInt ''1000000000000000000000000000'') 1000000 = Num (10 ^ 21)
   \<and> rounded_1_decimal (10 ^ 21) @ ''M'' = ''1000000000000000000000.0M''
   \<and> formatVolume ''1000000000000000000000000000'' = ''1e+21M''
   \<and> formatVolume ''1000000000000000000000000000'' \<noteq> rounded_1_decimal (10 ^ 21) @ ''M''"
  by (simp add: rounded_1_decimal_def round_def formatVolume_def js_ge_def parse_eval number_eval)

section \<open>Inputs that are not numbers\<close>

lemma of_char_decimal:
  assumes "48 \<le> (of_char c :: int)" and "(of_char c :: int) \<le> 57"
  shows "c \<in> set ''0123456789''"
proof -
  have "(of_char c :: int) \<in> {48, 49, 50, 51, 52, 53, 54, 55, 56, 57}"
    using assms by simp arith
  then have "(of_char c :: int) \<in> of_char ` set ''0123456789''"
    by simp
  then show ?thesis
    by (auto simp del: set_simps list.set)
qed

lemma isRadixDigit_10: "isRadixDigit 10 c \<longleftrightarrow> isDecimalDigit c"
proof
  assume "isDecimalDigit c"
  then show "isRadixDigit 10 c"
    by (auto simp: isDecimalDigit_def isRadixDigit_def digitValue_def)
next
  assume "isRadixDigit 10 c"
  then have "48 \<le> (of_char c :: int) \<and> (of_char c :: int) \<le> 57"
    by (auto simp: isRadixDigit_def digitValue_def Let_def split: if_splits)
  then show "isDecimalDigit c"
    unfolding isDecimalDigit_def by (intro of_char_decimal) simp_all
qed


lemma no_numeric_prefix_parseInt:
  assumes "no_numeric_prefix s"
  shows "parseInt s = NaN"
proof -
  define t where "t = dropWhile isWhiteSpace s"
  define u where "u = (if take 1 t = ''+'' \<or> take 1 t = ''-'' then drop 1 t else t)"
  have u: "u = [] \<or> (\<exists>c cs. u = c # cs \<and> \<not> isDecimalDigit c)"
    using assms unfolding no_numeric_prefix_def Let_def t_def u_def
    by (auto split: list.splits)
  then have nohex: "take 2 u \<noteq> ''0x''" "take 2 u \<noteq> ''0X''"
    by (auto simp: isDecimalDigit_def)
  from u have none: "takeWhile (isRadixDigit 10) u = []"
    by (auto simp: isRadixDigit_10)
  have "parseInt s =
      (if takeWhile (isRadixDigit (if take 2 u = ''0x'' \<or> take 2 u = ''0X'' then 16 else 10))
            (if take 2 u = ''0x'' \<or> take 2 u = ''0X'' then drop 2 u else u) = []
       then NaN
       else fl ((if take 1 t = ''-'' then - 1 else 1) *
                of_int (mathInt (if take 2 u = ''0x'' \<or> take 2 u = ''0X'' then 16 else 10) 0
                  (takeWhile
                    (isRadixDigit (if take 2 u = ''0x'' \<or> take 2 u = ''0X'' then 16 else 10))
                    (if take 2 u = ''0x'' \<or> take 2 u = ''0X'' then drop 2 u else u)))))"
    unfolding parseInt_def Let_def t_def u_def by (rule refl)
  with nohex none show ?thesis by simp
qed

text \<open>
  C10. For every input without a leading numeric prefix \<open>parseInt\<close> yields \<open>NaN\<close>, and
  whenever \<open>parseInt\<close> yields \<open>NaN\<close> both comparisons are false and \<open>formatVolume\<close> returns
  its input unchanged.
\<close>

theorem formatVolume_not_a_number:
  "(no_numeric_prefix vol \<longrightarrow> parseInt vol = NaN \<and> formatVolume vol = vol)
   \<and> (parseInt vol = NaN \<longrightarrow> formatVolume vol = vol)"
proof -
  have "parseInt vol = NaN \<longrightarrow> formatVolume vol = vol"
    by (simp add: formatVolume_def js_ge_def)
  then show ?thesis
    using no_numeric_prefix_parseInt [of vol] by blast
qed

text \<open>The inputs "N/A" and "".\<close>

theorem formatVolume_not_a_number_witness:
  "no_numeric_prefix ''N/A'' \<and> parseInt ''N/A'' = NaN \<and> formatVolume ''N/A'' = ''N/A''
   \<and> no_numeric_prefix [] \<and> parseInt [] = NaN \<and> formatVolume [] = []"
  using formatVolume_not_a_number [of "''N/A''"] formatVolume_not_a_number [of "[]"]
  by (simp add: no_numeric_prefix_def isDecimalDigit_def isWhiteSpace_def)

end
